theory Spec2Isabelle
  imports Complex_Main "HOL-Library.AList"
begin

section \<open>Trace reconstruction and privacy metrics of the CAM evaluation scripts\<close>

text \<open>
  A shallow embedding of the Python modules \<^verbatim>\<open>metrics/utilities.py\<close>,
  \<^verbatim>\<open>metrics/types.py\<close>, \<^verbatim>\<open>metrics/trace.py\<close>,
  \<^verbatim>\<open>metrics/static_attacker.py\<close>, \<^verbatim>\<open>metrics/degree_of_anonymity.py\<close> and
  \<^verbatim>\<open>metrics/pseudonym_consumption.py\<close>.

  Python's unbounded integers are \<^typ>\<open>int\<close>. Python and numpy floats are idealised as
  \<^typ>\<open>real\<close>: a theorem below that mentions a real number is a statement about the
  exact arithmetic which the code approximates in binary64, not about its rounding. A
  Python exception is a value \<open>Inl e\<close> of a sum type. A Python list is a HOL list, a
  dictionary an association list in insertion order (\<^const>\<open>AList.update\<close> overwrites
  in place or appends at the end, as an assignment to a dictionary key does), an object
  that a function mutates is passed in and returned.
\<close>

datatype py_error = ValueError | IndexError | ZeroDivisionError | StatisticsError

definition bind_err :: "py_error + 'a \<Rightarrow> ('a \<Rightarrow> py_error + 'b) \<Rightarrow> py_error + 'b" where
  "bind_err r f = (case r of Inl e \<Rightarrow> Inl e | Inr x \<Rightarrow> f x)"

subsection \<open>utilities.py: the CAM record and the deduplication of the log\<close>

text \<open>
  Class \<^verbatim>\<open>CAM\<close>. The field \<^verbatim>\<open>length\<close> is \<open>length_cm\<close> here, since
  \<^const>\<open>length\<close> is the length of a list.
\<close>

record CAM =
  timestamp :: int
  static_id :: int
  pseudo_id :: int
  longitude :: int
  latitude :: int
  width :: int
  length_cm :: int
  speed :: int
  heading :: int

text \<open>
  \<^verbatim>\<open>remove_duplicates_in_csv\<close> iterates over the lines of the input file, keeps a set
  \<^verbatim>\<open>seen\<close> and writes every line that is not yet in it. A file is the list of its lines,
  each line the exact text the iteration yields (its terminator included), so that two
  lines are duplicates exactly when they are equal strings. The result is the list of
  lines written to the output file.
\<close>

fun dedup_loop :: "string list \<Rightarrow> string set \<Rightarrow> string list" where
  "dedup_loop [] seen = []"
| "dedup_loop (line # rest) seen =
     (if line \<in> seen then dedup_loop rest seen
      else line # dedup_loop rest (insert line seen))"

definition remove_duplicates_in_csv :: "string list \<Rightarrow> string list" where
  "remove_duplicates_in_csv in_file = dedup_loop in_file {}"

text \<open>
  The specification's reading of the output: the lines of the input at the positions
  where a line occurs for the first time, in input order.
\<close>

definition first_occurrences :: "string list \<Rightarrow> string list" where
  "first_occurrences ls =
     map (\<lambda>i. ls ! i) (filter (\<lambda>i. ls ! i \<notin> set (take i ls)) [0..<length ls])"

subsection \<open>types.py: positions and traces\<close>

record Position =
  p_longitude :: int
  p_latitude :: int
  p_timestamp :: int

text \<open>
  \<^verbatim>\<open>Position.__eq__\<close> compares longitude and latitude and ignores the timestamp;
  \<^verbatim>\<open>!=\<close> is its negation.
\<close>

definition position_eq :: "Position \<Rightarrow> Position \<Rightarrow> bool" where
  "position_eq self other =
     (if p_longitude self = p_longitude other \<and> p_latitude self = p_latitude other
      then True else False)"

record OriginalTrace =
  o_static_id :: int
  o_positions :: "Position list"
  o_duration :: int

record ReconstructedTrace =
  r_static_id :: int
  r_pseudo_ids :: "int list"
  r_positions :: "Position list"
  r_duration :: int

record VehicleTrace =
  v_static_id :: int
  original_trace :: OriginalTrace
  reconstructed_traces :: "ReconstructedTrace list"

subsection \<open>trace.py: candidate tracks (class VehicleDynamicId)\<close>

text \<open>
  The constructor stores one element in each list and \<^verbatim>\<open>update_parameters\<close> only
  appends, so the lists of a track are never empty and \<^verbatim>\<open>xs[-1]\<close> is \<^term>\<open>last xs\<close>;
  \<open>valid_dynamic\<close> states this invariant.
\<close>

record VehicleDynamicId =
  d_pseudo_id :: "int list"
  d_static_id :: int
  d_width :: int
  d_length :: int
  d_longitude :: "int list"
  d_latitude :: "int list"
  d_speed :: "int list"
  d_heading :: "int list"
  d_timestamps :: "int list"
  d_duration :: int

definition EARTH_RADIUS :: real where "EARTH_RADIUS = 6371"
definition POS_ERR_TOLERANCE :: real where "POS_ERR_TOLERANCE = 3 / 1000"
definition HEADING_TOLERANCE :: real where "HEADING_TOLERANCE = pi * 3 / 5"

definition VehicleDynamicId_init :: "CAM \<Rightarrow> VehicleDynamicId" where
  "VehicleDynamicId_init cam =
     \<lparr> d_pseudo_id = [pseudo_id cam], d_static_id = static_id cam,
       d_width = width cam, d_length = length_cm cam,
       d_longitude = [longitude cam], d_latitude = [latitude cam],
       d_speed = [speed cam], d_heading = [heading cam],
       d_timestamps = [timestamp cam], d_duration = 0 \<rparr>"

definition valid_dynamic :: "VehicleDynamicId \<Rightarrow> bool" where
  "valid_dynamic self =
     (d_pseudo_id self \<noteq> [] \<and> d_longitude self \<noteq> [] \<and> d_latitude self \<noteq> []
      \<and> d_speed self \<noteq> [] \<and> d_heading self \<noteq> [] \<and> d_timestamps self \<noteq> [])"

definition compare_id :: "VehicleDynamicId \<Rightarrow> int \<Rightarrow> bool" where
  "compare_id self new_id = (last (d_pseudo_id self) = new_id)"

definition compare_parameters :: "VehicleDynamicId \<Rightarrow> int \<Rightarrow> int \<Rightarrow> bool" where
  "compare_parameters self length_new width_new =
     (length_new = d_length self \<and> width_new = d_width self)"

text \<open>
  \<^verbatim>\<open>np.deg2rad\<close>, and the float remainder \<^verbatim>\<open>x % y\<close>, whose result has the sign of
  the divisor: \<open>x - y * floor (x / y)\<close>.
\<close>

definition deg2rad :: "real \<Rightarrow> real" where
  "deg2rad x = x * (pi / 180)"

definition py_mod :: "real \<Rightarrow> real \<Rightarrow> real" where
  "py_mod x y = x - y * of_int \<lfloor>x / y\<rfloor>"

definition compute_new_lat :: "real \<Rightarrow> real \<Rightarrow> real" where
  "compute_new_lat lat dy = lat + (dy / EARTH_RADIUS) * (180 / pi)"

definition compute_new_long :: "real \<Rightarrow> real \<Rightarrow> real \<Rightarrow> real" where
  "compute_new_long long lat dx =
     long + (dx / EARTH_RADIUS) * (180 / pi) / cos (lat * pi / 180)"

definition dy_dx_from_distance_and_heading :: "real \<Rightarrow> real \<Rightarrow> real \<times> real" where
  "dy_dx_from_distance_and_heading dist_m hdg =
     (let dist_km = dist_m / 1000;
          dy = sin (pi / 2 - hdg) * dist_km;
          dx = cos (pi / 2 - hdg) * dist_km
      in (dy, dx))"

definition geo_distance :: "real \<Rightarrow> real \<Rightarrow> real \<Rightarrow> real \<Rightarrow> real" where
  "geo_distance latitude1 longitude1 latitude2 longitude2 =
     (let latitude1 = deg2rad latitude1;
          latitude2 = deg2rad latitude2;
          longitude1 = deg2rad longitude1;
          longitude2 = deg2rad longitude2;
          d_lon = longitude2 - longitude1;
          d_lat = latitude2 - latitude1;
          a = (sin (d_lat / 2))\<^sup>2 + cos latitude1 * cos latitude2 * (sin (d_lon / 2))\<^sup>2;
          c = 2 * arcsin (sqrt a)
      in c * EARTH_RADIUS)"

text \<open>
  \<^verbatim>\<open>compare_position\<close>, lines 130 to 151: the distance \<^verbatim>\<open>position_deviation\<close> between
  the position the CAM reports and the position predicted from the track's last state.
  The literal \<^verbatim>\<open>10e-8\<close> is \<open>10 / 10 ^ 8\<close>. Where \<open>cos\<close> of the latitude is zero the
  division in \<open>compute_new_long\<close> is HOL's (\<open>x / 0 = 0\<close>); no theorem below depends on
  the quotient there.
\<close>

definition position_deviation :: "VehicleDynamicId \<Rightarrow> CAM \<Rightarrow> real" where
  "position_deviation self cam =
     (let delta_t = timestamp cam - last (d_timestamps self);
          new_lat = real_of_int (latitude cam) * (10 / 10 ^ 8);
          new_long = real_of_int (longitude cam) * (10 / 10 ^ 8);
          old_lat = real_of_int (last (d_latitude self)) * (10 / 10 ^ 8);
          old_long = real_of_int (last (d_longitude self)) * (10 / 10 ^ 8);
          velocity = real_of_int (last (d_speed self)) / 100;
          velocity_2 = real_of_int (speed cam) / 100;
          t = real_of_int delta_t / 1000;
          hdg = deg2rad (real_of_int (last (d_heading self)) / 10);
          hdg_2 = deg2rad (real_of_int (heading cam) / 10);
          dist_1 = velocity * t / 2;
          dist_2 = velocity_2 * t / 2;
          (dy_1, dx_1) = dy_dx_from_distance_and_heading dist_1 hdg;
          (dy_2, dx_2) = dy_dx_from_distance_and_heading dist_2 hdg_2;
          dx = dx_1 + dx_2;
          dy = dy_1 + dy_2;
          estimated_longitude = compute_new_long old_long old_lat dx;
          estimated_latitude = compute_new_lat old_lat dy
      in geo_distance new_lat new_long estimated_latitude estimated_longitude)"

text \<open>The heading difference \<^verbatim>\<open>diff\<close> of line 155, and the function itself.\<close>

definition heading_diff :: "VehicleDynamicId \<Rightarrow> CAM \<Rightarrow> real" where
  "heading_diff self cam =
     (let hdg = deg2rad (real_of_int (last (d_heading self)) / 10);
          hdg_2 = deg2rad (real_of_int (heading cam) / 10)
      in py_mod ((hdg_2 - hdg) + pi / 2) pi - pi / 2)"

definition compare_position :: "VehicleDynamicId \<Rightarrow> CAM \<Rightarrow> real \<Rightarrow> real \<Rightarrow> bool" where
  "compare_position self cam max_pos_err max_heading_diff =
     (let deviation = position_deviation self cam;
          heading_in_constraint =
            (if deviation < max_pos_err
             then - max_heading_diff < heading_diff self cam
                  \<and> heading_diff self cam < max_heading_diff
             else False)
      in deviation < max_pos_err \<and> heading_in_constraint)"

text \<open>
  The position-only test: the predicted position is less than 0.003 km away from the
  reported one.
\<close>

definition position_only_test :: "VehicleDynamicId \<Rightarrow> CAM \<Rightarrow> bool" where
  "position_only_test self cam = (position_deviation self cam < 3 / 1000)"

text \<open>\<^verbatim>\<open>update_parameters\<close> appends the CAM's state and adds the gap to the duration.\<close>

definition update_parameters :: "VehicleDynamicId \<Rightarrow> CAM \<Rightarrow> VehicleDynamicId" where
  "update_parameters self cam =
     self \<lparr> d_speed := d_speed self @ [speed cam],
            d_heading := d_heading self @ [heading cam],
            d_longitude := d_longitude self @ [longitude cam],
            d_latitude := d_latitude self @ [latitude cam],
            d_pseudo_id := d_pseudo_id self @ [pseudo_id cam],
            d_duration := d_duration self + (timestamp cam - last (d_timestamps self)),
            d_timestamps := d_timestamps self @ [timestamp cam] \<rparr>"

text \<open>\<^verbatim>\<open>get_positions\<close> of both classes zips longitudes, latitudes and timestamps.\<close>

definition positions_of :: "int list \<Rightarrow> int list \<Rightarrow> int list \<Rightarrow> Position list" where
  "positions_of longs lats stamps =
     map (\<lambda>(lo, la, t). \<lparr> p_longitude = lo, p_latitude = la, p_timestamp = t \<rparr>)
       (zip longs (zip lats stamps))"

definition d_get_positions :: "VehicleDynamicId \<Rightarrow> Position list" where
  "d_get_positions self = positions_of (d_longitude self) (d_latitude self) (d_timestamps self)"

text \<open>
  \<^verbatim>\<open>get_trace_duration\<close>: the loop over \<^verbatim>\<open>range(1, min(len(traced), len(original)))\<close>
  with its \<^verbatim>\<open>break\<close>; every index it reads is in range.
\<close>

fun trace_duration_loop :: "Position list \<Rightarrow> Position list \<Rightarrow> nat list \<Rightarrow> int \<Rightarrow> int" where
  "trace_duration_loop original_positions traced_positions [] duration = duration"
| "trace_duration_loop original_positions traced_positions (i # rest) duration =
     (if \<not> position_eq (traced_positions ! i) (original_positions ! i) then duration
      else trace_duration_loop original_positions traced_positions rest
             (duration + (p_timestamp (original_positions ! i)
                          - p_timestamp (original_positions ! (i - 1)))))"

definition get_trace_duration :: "Position list \<Rightarrow> Position list \<Rightarrow> int" where
  "get_trace_duration original_positions traced_positions =
     trace_duration_loop original_positions traced_positions
       [1 ..< min (length traced_positions) (length original_positions)] 0"

subsection \<open>trace.py: ground-truth tracks (class VehicleConstantId)\<close>

record VehicleConstantId =
  c_static_id :: int
  c_longitude :: "int list"
  c_latitude :: "int list"
  c_timestamps :: "int list"
  c_duration :: int

definition VehicleConstantId_init :: "int \<Rightarrow> int \<Rightarrow> int \<Rightarrow> int \<Rightarrow> VehicleConstantId" where
  "VehicleConstantId_init sid long lat stamp =
     \<lparr> c_static_id = sid, c_longitude = [long], c_latitude = [lat],
       c_timestamps = [stamp], c_duration = 0 \<rparr>"

definition try_update_parameters ::
  "VehicleConstantId \<Rightarrow> int \<Rightarrow> int \<Rightarrow> int \<Rightarrow> int \<Rightarrow> VehicleConstantId \<times> bool" where
  "try_update_parameters self ident long lat stamp =
     (if ident \<noteq> c_static_id self then (self, False)
      else (self \<lparr> c_longitude := c_longitude self @ [long],
                   c_latitude := c_latitude self @ [lat],
                   c_duration := c_duration self + (stamp - last (c_timestamps self)),
                   c_timestamps := c_timestamps self @ [stamp] \<rparr>, True))"

definition c_get_positions :: "VehicleConstantId \<Rightarrow> Position list" where
  "c_get_positions self = positions_of (c_longitude self) (c_latitude self) (c_timestamps self)"

subsection \<open>trace.py: matching a CAM against the tracks\<close>

text \<open>
  Both matching functions walk the list in order, update the first track that accepts
  the CAM in place and stop; they return the list and, when no track accepted, the new
  track the caller appends.
\<close>

fun match_static_vehicle ::
  "CAM \<Rightarrow> VehicleConstantId list \<Rightarrow> VehicleConstantId list \<times> VehicleConstantId option" where
  "match_static_vehicle cam [] =
     ([], Some (VehicleConstantId_init (static_id cam) (longitude cam) (latitude cam) (timestamp cam)))"
| "match_static_vehicle cam (vehicle_constant # rest) =
     (case try_update_parameters vehicle_constant
             (static_id cam) (longitude cam) (latitude cam) (timestamp cam) of
        (updated, True) \<Rightarrow> (updated # rest, None)
      | (_, False) \<Rightarrow>
          (case match_static_vehicle cam rest of
             (rest', new_vehicle) \<Rightarrow> (vehicle_constant # rest', new_vehicle)))"

fun match_dynamic_vehicle ::
  "CAM \<Rightarrow> VehicleDynamicId list \<Rightarrow> VehicleDynamicId list \<times> VehicleDynamicId option" where
  "match_dynamic_vehicle cam [] = ([], Some (VehicleDynamicId_init cam))"
| "match_dynamic_vehicle cam (vehicle_dynamic # rest) =
     (let is_known_veh = compare_id vehicle_dynamic (pseudo_id cam);
          is_known_veh =
            (if \<not> is_known_veh \<and> compare_parameters vehicle_dynamic (length_cm cam) (width cam)
             then compare_position vehicle_dynamic cam POS_ERR_TOLERANCE HEADING_TOLERANCE
             else is_known_veh)
      in if is_known_veh then (update_parameters vehicle_dynamic cam # rest, None)
         else (case match_dynamic_vehicle cam rest of
                 (rest', new_vehicle) \<Rightarrow> (vehicle_dynamic # rest', new_vehicle)))"

text \<open>
  \<^verbatim>\<open>build_routes\<close>: \<^verbatim>\<open>vehicles\<close> is the optional allow-list; an empty list is falsy
  and filters nothing.
\<close>

fun build_routes_loop ::
  "CAM list \<Rightarrow> int list option \<Rightarrow> VehicleConstantId list \<Rightarrow> VehicleDynamicId list
     \<Rightarrow> VehicleConstantId list \<times> VehicleDynamicId list" where
  "build_routes_loop [] vehicles static_vehicles dynamic_vehicles =
     (static_vehicles, dynamic_vehicles)"
| "build_routes_loop (cam # cams) vehicles static_vehicles dynamic_vehicles =
     (if (case vehicles of Some (v # vs) \<Rightarrow> static_id cam \<notin> set (v # vs) | _ \<Rightarrow> False)
      then build_routes_loop cams vehicles static_vehicles dynamic_vehicles
      else
        (case match_static_vehicle cam static_vehicles of
           (static_vehicles, new_static_veh) \<Rightarrow>
             (case match_dynamic_vehicle cam dynamic_vehicles of
                (dynamic_vehicles, new_dynamic_veh) \<Rightarrow>
                  build_routes_loop cams vehicles
                    (case new_static_veh of Some n \<Rightarrow> static_vehicles @ [n]
                                           | None \<Rightarrow> static_vehicles)
                    (case new_dynamic_veh of Some n \<Rightarrow> dynamic_vehicles @ [n]
                                            | None \<Rightarrow> dynamic_vehicles))))"

definition build_routes ::
  "CAM list \<Rightarrow> int list option \<Rightarrow> VehicleConstantId list \<times> VehicleDynamicId list" where
  "build_routes cams vehicles = build_routes_loop cams vehicles [] []"

text \<open>
  \<^verbatim>\<open>get_vehicle_traces\<close>. The slice \<^verbatim>\<open>static_vehicles[:max_vehicles]\<close> keeps everything
  for \<^verbatim>\<open>None\<close> and counts a negative bound from the end; \<^verbatim>\<open>len(set(xs))\<close> is
  \<^term>\<open>card (set xs)\<close>.
\<close>

definition slice_to :: "'a list \<Rightarrow> int option \<Rightarrow> 'a list" where
  "slice_to xs stop =
     (case stop of None \<Rightarrow> xs
      | Some m \<Rightarrow> if 0 \<le> m then take (nat m) xs else take (nat (int (length xs) + m)) xs)"

fun reconstruct_loop :: "VehicleConstantId \<Rightarrow> VehicleDynamicId list \<Rightarrow> ReconstructedTrace list" where
  "reconstruct_loop orig_vehicle [] = []"
| "reconstruct_loop orig_vehicle (target_trace # rest) =
     (if d_static_id target_trace \<noteq> c_static_id orig_vehicle
         \<or> card (set (d_timestamps target_trace)) \<le> 1
      then reconstruct_loop orig_vehicle rest
      else
        (let tracking_positions = d_get_positions target_trace;
             original_positions = c_get_positions orig_vehicle;
             trace_duration = get_trace_duration original_positions tracking_positions;
             trace_part = \<lparr> r_static_id = c_static_id orig_vehicle,
                            r_pseudo_ids = d_pseudo_id target_trace,
                            r_positions = tracking_positions,
                            r_duration = trace_duration \<rparr>
         in trace_part # reconstruct_loop orig_vehicle rest))"

fun vehicle_traces_loop :: "VehicleConstantId list \<Rightarrow> VehicleDynamicId list \<Rightarrow> VehicleTrace list" where
  "vehicle_traces_loop [] dynamic_vehicles = []"
| "vehicle_traces_loop (orig_vehicle # rest) dynamic_vehicles =
     (if \<not> card (set (c_timestamps orig_vehicle)) > 1
      then vehicle_traces_loop rest dynamic_vehicles
      else
        (let reconstructed = reconstruct_loop orig_vehicle dynamic_vehicles
         in if reconstructed = [] then vehicle_traces_loop rest dynamic_vehicles
            else
              (let orig_trace = \<lparr> o_static_id = c_static_id orig_vehicle,
                                  o_positions = c_get_positions orig_vehicle,
                                  o_duration = c_duration orig_vehicle \<rparr>;
                   vehicle_trace = \<lparr> v_static_id = c_static_id orig_vehicle,
                                     original_trace = orig_trace,
                                     reconstructed_traces = reconstructed \<rparr>
               in vehicle_trace # vehicle_traces_loop rest dynamic_vehicles)))"

definition get_vehicle_traces ::
  "CAM list \<Rightarrow> int list option \<Rightarrow> int option \<Rightarrow> VehicleTrace list" where
  "get_vehicle_traces cams vehicles max_vehicles =
     (case build_routes cams vehicles of
        (static_vehicles, dynamic_vehicles) \<Rightarrow>
          vehicle_traces_loop (slice_to static_vehicles max_vehicles) dynamic_vehicles)"

subsection \<open>static_attacker.py: the tracking success of one vehicle\<close>

text \<open>
  \<^verbatim>\<open>write_success_rate\<close> reads \<^verbatim>\<open>reconstructed_traces[0].duration\<close> into the variable
  \<^verbatim>\<open>max_tracking_duration\<close> and divides it by the duration of the original trace. The
  result is the value it returns and, as a percentage, the one it writes.
\<close>

definition write_success_rate :: "VehicleTrace \<Rightarrow> py_error + real" where
  "write_success_rate vehicle_trace =
     (case reconstructed_traces vehicle_trace of
        [] \<Rightarrow> Inl IndexError
      | first_trace # _ \<Rightarrow>
          (let max_tracking_duration = r_duration first_trace
           in if o_duration (original_trace vehicle_trace) = 0 then Inl ZeroDivisionError
              else Inr (real_of_int max_tracking_duration
                        / real_of_int (o_duration (original_trace vehicle_trace)))))"

subsection \<open>degree_of_anonymity.py\<close>

text \<open>
  The anonymity set is a dictionary from pseudonym to (number of CAMs, time of the last
  CAM). A CAM is counted first; then, unless the set was already purged at this
  timestamp, every entry older than the threshold is removed.
\<close>

type_synonym anonymity_set = "(int \<times> (int \<times> int)) list"

fun anonymity_set_loop ::
  "CAM list \<Rightarrow> int \<Rightarrow> int \<Rightarrow> anonymity_set \<Rightarrow> int \<Rightarrow> anonymity_set" where
  "anonymity_set_loop [] threshold end_timestamp aset last_purge_timestamp = aset"
| "anonymity_set_loop (cam # cams) threshold end_timestamp aset last_purge_timestamp =
     (if end_timestamp \<noteq> 0 \<and> timestamp cam \<ge> end_timestamp then aset
      else
        (let aset =
               (case map_of aset (pseudo_id cam) of
                  Some (n, _) \<Rightarrow> AList.update (pseudo_id cam) (n + 1, timestamp cam) aset
                | None \<Rightarrow> AList.update (pseudo_id cam) (1, timestamp cam) aset)
         in if last_purge_timestamp = timestamp cam
            then anonymity_set_loop cams threshold end_timestamp aset last_purge_timestamp
            else
              (let lst_of_to_be_purged_keys =
                     map fst (filter (\<lambda>(pid, (_, time_when_last_msg_received)).
                                timestamp cam - time_when_last_msg_received > threshold) aset);
                   aset = fold AList.delete lst_of_to_be_purged_keys aset
               in anonymity_set_loop cams threshold end_timestamp aset (timestamp cam))))"

definition calculate_anonymity_set :: "CAM list \<Rightarrow> int \<Rightarrow> int \<Rightarrow> anonymity_set" where
  "calculate_anonymity_set cams cam_anonymity_set_purge_threshold end_timestamp =
     anonymity_set_loop cams cam_anonymity_set_purge_threshold end_timestamp [] 0"

text \<open>
  \<^verbatim>\<open>calculate_entropy_and_eass\<close>: the division raises when the counts sum to zero, and
  \<^verbatim>\<open>math.log\<close> raises on a probability that is not positive; \<^verbatim>\<open>math.log(p, 2)\<close> is
  \<^term>\<open>log 2 p\<close>.
\<close>

definition calculate_entropy_and_eass :: "anonymity_set \<Rightarrow> py_error + real" where
  "calculate_entropy_and_eass aset =
     (let n_total_cams = (\<Sum>(_, (n_pseudo_cams, _)) \<leftarrow> aset. real_of_int n_pseudo_cams)
      in if aset \<noteq> [] \<and> n_total_cams = 0 then Inl ZeroDivisionError
         else
           (let probs = map (\<lambda>(_, (n_pseudo_cams, _)). real_of_int n_pseudo_cams / n_total_cams) aset
            in if list_ex (\<lambda>prob. prob \<le> 0) probs then Inl ValueError
               else
                 (let entropy_tmp = (\<Sum>prob \<leftarrow> probs. prob * log 2 prob)
                  in Inr (- entropy_tmp))))"

definition calculate_degree_of_anonymity :: "anonymity_set \<Rightarrow> real \<Rightarrow> real" where
  "calculate_degree_of_anonymity aset eass =
     (if length aset \<le> 1 then - 1
      else (let max_possible_entropy = log 2 (real (length aset))
            in eass / max_possible_entropy))"

subsection \<open>pseudonym_consumption.py\<close>

text \<open>
  \<^verbatim>\<open>calculate_pseudonym_consumption\<close> collects the set of pseudonyms of every static id
  and divides its size by the simulated time.
\<close>

fun pseudonyms_loop :: "CAM list \<Rightarrow> (int \<times> int set) list \<Rightarrow> (int \<times> int set) list" where
  "pseudonyms_loop [] pseudonyms_per_id = pseudonyms_per_id"
| "pseudonyms_loop (cam # cams) pseudonyms_per_id =
     (let pseudonyms = (case map_of pseudonyms_per_id (static_id cam) of
                          Some s \<Rightarrow> s | None \<Rightarrow> {})
      in pseudonyms_loop cams
           (AList.update (static_id cam) (insert (pseudo_id cam) pseudonyms) pseudonyms_per_id))"

definition calculate_pseudonym_consumption ::
  "CAM list \<Rightarrow> real \<Rightarrow> py_error + (int \<times> real) list" where
  "calculate_pseudonym_consumption cams sim_time =
     (let pseudonyms_per_id = pseudonyms_loop cams []
      in if pseudonyms_per_id \<noteq> [] \<and> sim_time = 0 then Inl ZeroDivisionError
         else Inr (map (\<lambda>(sid, pseudonyms). (sid, real (card pseudonyms) / sim_time))
                     pseudonyms_per_id))"

text \<open>
  The built-ins \<^verbatim>\<open>min\<close> and \<^verbatim>\<open>max\<close> raise ValueError on an empty sequence;
  \<^verbatim>\<open>statistics.median\<close> and \<^verbatim>\<open>mean\<close> raise StatisticsError on no data and
  \<^verbatim>\<open>stdev\<close> on fewer than two values.
\<close>

definition py_min :: "real list \<Rightarrow> py_error + real" where
  "py_min xs = (case xs of [] \<Rightarrow> Inl ValueError | x # rest \<Rightarrow> Inr (fold min rest x))"

definition py_max :: "real list \<Rightarrow> py_error + real" where
  "py_max xs = (case xs of [] \<Rightarrow> Inl ValueError | x # rest \<Rightarrow> Inr (fold max rest x))"

definition median :: "real list \<Rightarrow> py_error + real" where
  "median xs =
     (let data = sort xs; n = length data
      in if n = 0 then Inl StatisticsError
         else if n mod 2 = 1 then Inr (data ! (n div 2))
         else Inr ((data ! (n div 2 - 1) + data ! (n div 2)) / 2))"

definition mean :: "real list \<Rightarrow> py_error + real" where
  "mean xs = (if length xs < 1 then Inl StatisticsError
              else Inr (sum_list xs / real (length xs)))"

definition stdev :: "real list \<Rightarrow> py_error + real" where
  "stdev xs =
     (if length xs < 2 then Inl StatisticsError
      else (let xbar = sum_list xs / real (length xs);
                ss = (\<Sum>x \<leftarrow> xs. (x - xbar)\<^sup>2)
            in Inr (sqrt (ss / real (length xs - 1)))))"

text \<open>
  \<^verbatim>\<open>write_stats\<close> computes the five statistics, prints each with its reciprocal
  (\<^verbatim>\<open>1 / x\<close>, which raises ZeroDivisionError on zero) and only then writes them to the
  file; the result is what it writes.
\<close>

definition py_recip :: "real \<Rightarrow> py_error + real" where
  "py_recip x = (if x = 0 then Inl ZeroDivisionError else Inr (1 / x))"

record consumption_stats =
  min_pseudo_cons :: real
  max_pseudo_cons :: real
  med_pseudo_cons :: real
  mean_pseudo_cons :: real
  std_pseudo_cons :: real

definition write_stats :: "(int \<times> real) list \<Rightarrow> py_error + consumption_stats" where
  "write_stats pseudonym_consumption =
     (let vals = map snd pseudonym_consumption in
      bind_err (py_min vals) (\<lambda>mn.
      bind_err (py_max vals) (\<lambda>mx.
      bind_err (median vals) (\<lambda>med.
      bind_err (mean vals) (\<lambda>avg.
      bind_err (stdev vals) (\<lambda>sd.
      bind_err (py_recip mn) (\<lambda>_.
      bind_err (py_recip mx) (\<lambda>_.
      bind_err (py_recip med) (\<lambda>_.
      bind_err (py_recip avg) (\<lambda>_.
      bind_err (py_recip sd) (\<lambda>_.
        Inr \<lparr> min_pseudo_cons = mn, max_pseudo_cons = mx, med_pseudo_cons = med,
              mean_pseudo_cons = avg, std_pseudo_cons = sd \<rparr>)))))))))))"

definition consumption_stats_of :: "CAM list \<Rightarrow> real \<Rightarrow> py_error + consumption_stats" where
  "consumption_stats_of cams sim_time =
     bind_err (calculate_pseudonym_consumption cams sim_time) write_stats"

subsection \<open>Sequences of appends\<close>

text \<open>
  A ground-truth track after its constructor and any number of successful
  \<^verbatim>\<open>try_update_parameters\<close> calls (the id passed is the track's own), and a candidate
  track after any number of \<^verbatim>\<open>update_parameters\<close> calls.
\<close>

definition static_appends :: "VehicleConstantId \<Rightarrow> (int \<times> int \<times> int) list \<Rightarrow> VehicleConstantId" where
  "static_appends self observations =
     foldl (\<lambda>v (long, lat, stamp). fst (try_update_parameters v (c_static_id v) long lat stamp))
       self observations"

definition dynamic_appends :: "VehicleDynamicId \<Rightarrow> CAM list \<Rightarrow> VehicleDynamicId" where
  "dynamic_appends self cams = foldl update_parameters self cams"

subsection \<open>The specification's notions\<close>

text \<open>The sum over consecutive timestamps of (new timestamp - previous timestamp).\<close>

fun sum_deltas :: "int list \<Rightarrow> int" where
  "sum_deltas (previous # new # rest) = (new - previous) + sum_deltas (new # rest)"
| "sum_deltas _ = 0"

text \<open>
  The reconstructed-fragment duration in the specification's words: walk the two
  sequences position by position from the start, add the successive ground-truth
  timestamp deltas, and stop at the first index where the two positions differ.
\<close>

fun fragment_walk :: "(Position \<times> Position) list \<Rightarrow> int \<Rightarrow> int" where
  "fragment_walk [] previous = 0"
| "fragment_walk ((original, traced) # rest) previous =
     (if position_eq traced original
      then (p_timestamp original - previous) + fragment_walk rest (p_timestamp original)
      else 0)"

definition spec_fragment_duration :: "Position list \<Rightarrow> Position list \<Rightarrow> int" where
  "spec_fragment_duration original_positions traced_positions =
     (case zip original_positions traced_positions of
        [] \<Rightarrow> 0
      | (original, traced) # rest \<Rightarrow>
          if position_eq traced original then fragment_walk rest (p_timestamp original) else 0)"

text \<open>The ground-truth timestamp delta that ends at index \<open>i\<close>.\<close>

definition timestamp_delta :: "Position list \<Rightarrow> nat \<Rightarrow> int" where
  "timestamp_delta original_positions i =
     p_timestamp (original_positions ! i) - p_timestamp (original_positions ! (i - 1))"

text \<open>
  The tracking success in the specification's words: the maximum of the fragment
  durations divided by the duration of the ground-truth track.
\<close>

definition spec_tracking_success :: "VehicleTrace \<Rightarrow> real" where
  "spec_tracking_success vehicle_trace =
     real_of_int (Max (set (map r_duration (reconstructed_traces vehicle_trace))))
       / real_of_int (o_duration (original_trace vehicle_trace))"

subsection \<open>Concrete inputs\<close>

definition mk_cam :: "int \<Rightarrow> int \<Rightarrow> int \<Rightarrow> int \<Rightarrow> int \<Rightarrow> int \<Rightarrow> int \<Rightarrow> int \<Rightarrow> int \<Rightarrow> CAM" where
  "mk_cam t sid pid lo la w l s h =
     \<lparr> timestamp = t, static_id = sid, pseudo_id = pid, longitude = lo, latitude = la,
       width = w, length_cm = l, speed = s, heading = h \<rparr>"

definition posn :: "int \<Rightarrow> int \<Rightarrow> int \<Rightarrow> Position" where
  "posn lo la t = \<lparr> p_longitude = lo, p_latitude = la, p_timestamp = t \<rparr>"

text \<open>
  One vehicle (static id 1) that moves between two points on a meridian, 1000 units of
  latitude (about 11 m) apart, and changes its pseudonym from 1 to 2 after its second
  CAM. Columns: timestamp, static id, pseudonym, longitude, latitude, width, length,
  speed, heading.
\<close>

definition cams_two_fragments :: "CAM list" where
  "cams_two_fragments =
     [mk_cam 0 1 1 93200000 487430000 200 500 0 0,
      mk_cam 1000 1 1 93200000 487440000 200 500 2000 0,
      mk_cam 2000 1 2 93200000 487430000 200 500 0 0,
      mk_cam 3000 1 2 93200000 487440000 200 500 0 0,
      mk_cam 4000 1 2 93200000 487430000 200 500 0 0]"

text \<open>
  Two vehicles of the same width and length: vehicle 1 (pseudonym 1) stands at latitude
  487440000, vehicle 2 (pseudonym 2) stands 10000 units south of it and one second later
  reports the place of vehicle 1, still under pseudonym 2.
\<close>

definition cams_two_vehicles :: "CAM list" where
  "cams_two_vehicles =
     [mk_cam 0 1 1 93200000 487440000 200 500 0 0,
      mk_cam 0 2 2 93200000 487430000 200 500 0 0]"

definition cam_same_pseudonym :: CAM where
  "cam_same_pseudonym = mk_cam 1000 2 2 93200000 487440000 200 500 0 0"

text \<open>Two vehicles that keep one pseudonym each during ten seconds of simulation.\<close>

definition cams_equal_rates :: "CAM list" where
  "cams_equal_rates =
     [mk_cam 0 1 11 93200000 487430000 200 500 0 0,
      mk_cam 0 2 22 93300000 487530000 180 450 0 0,
      mk_cam 1000 1 11 93200000 487430000 200 500 0 0,
      mk_cam 1000 2 22 93300000 487530000 180 450 0 0]"

section \<open>Deduplication\<close>

lemma dedup_loop_snoc:
  "dedup_loop (xs @ [x]) seen =
     dedup_loop xs seen @ (if x \<in> seen \<union> set xs then [] else [x])"
  by (induction xs arbitrary: seen) auto

lemma dedup_loop_set: "set (dedup_loop xs seen) = set xs - seen"
  by (induction xs arbitrary: seen) auto

lemma dedup_loop_distinct: "distinct (dedup_loop xs seen)"
  by (induction xs arbitrary: seen) (auto simp: dedup_loop_set)

lemma dedup_loop_disjoint_id:
  "distinct xs \<Longrightarrow> set xs \<inter> seen = {} \<Longrightarrow> dedup_loop xs seen = xs"
  by (induction xs arbitrary: seen) auto

lemma first_occurrences_snoc:
  "first_occurrences (xs @ [x]) =
     first_occurrences xs @ (if x \<in> set xs then [] else [x])"
proof -
  have f: "filter (\<lambda>i. (xs @ [x]) ! i \<notin> set (take i (xs @ [x]))) [0..<length xs]
         = filter (\<lambda>i. xs ! i \<notin> set (take i xs)) [0..<length xs]"
    by (rule filter_cong) (auto simp: nth_append)
  have m: "map (\<lambda>i. (xs @ [x]) ! i)
             (filter (\<lambda>i. (xs @ [x]) ! i \<notin> set (take i (xs @ [x]))) [0..<length xs])
         = map (\<lambda>i. xs ! i) (filter (\<lambda>i. xs ! i \<notin> set (take i xs)) [0..<length xs])"
    unfolding f by (rule map_cong) (auto simp: nth_append)
  show ?thesis
    using m by (simp add: first_occurrences_def)
qed

lemma dedup_first_occurrences: "dedup_loop ls {} = first_occurrences ls"
proof (induction ls rule: rev_induct)
  case Nil
  show ?case by (simp add: first_occurrences_def)
next
  case (snoc x xs)
  then show ?case by (simp add: dedup_loop_snoc first_occurrences_snoc)
qed

text \<open>
  Claim C5. For every input file, given as the sequence of its lines, deduplicating the
  output of a deduplication changes nothing; the output has no two equal lines; and the
  output is the sequence of first occurrences of the input's lines, in input order.
\<close>

theorem remove_duplicates_idempotent_distinct_first:
  "remove_duplicates_in_csv (remove_duplicates_in_csv ls) = remove_duplicates_in_csv ls
   \<and> distinct (remove_duplicates_in_csv ls)
   \<and> remove_duplicates_in_csv ls = first_occurrences ls"
proof -
  have d: "distinct (dedup_loop ls {})" by (rule dedup_loop_distinct)
  have i: "dedup_loop (dedup_loop ls {}) {} = dedup_loop ls {}"
    using d by (intro dedup_loop_disjoint_id) simp_all
  show ?thesis
    unfolding remove_duplicates_in_csv_def
    using d i dedup_first_occurrences [of ls] by simp
qed

section \<open>The continuity test\<close>

lemma py_mod_nonneg: "0 < y \<Longrightarrow> 0 \<le> py_mod x y"
  using floor_divide_lower [of y x] by (simp add: py_mod_def mult.commute)

lemma py_mod_less: "0 < y \<Longrightarrow> py_mod x y < y"
  using floor_divide_upper [of y x] by (simp add: py_mod_def algebra_simps)

lemma heading_diff_lower: "- (pi / 2) \<le> heading_diff self cam"
  using py_mod_nonneg [OF pi_gt_zero]
  by (simp add: heading_diff_def Let_def)

lemma heading_diff_upper: "heading_diff self cam < pi / 2"
proof -
  have "py_mod (deg2rad (real_of_int (heading cam) / 10)
          - deg2rad (real_of_int (last (d_heading self)) / 10) + pi / 2) pi < pi"
    by (rule py_mod_less [OF pi_gt_zero])
  then show ?thesis
    by (simp add: heading_diff_def Let_def)
qed

lemma heading_always_in_constraint:
  "- HEADING_TOLERANCE < heading_diff self cam \<and> heading_diff self cam < HEADING_TOLERANCE"
proof -
  have "- (pi * 3 / 5) < - (pi / 2)" and "pi / 2 < pi * 3 / 5"
    using pi_gt_zero by simp_all
  then show ?thesis
    using heading_diff_lower [of self cam] heading_diff_upper [of self cam]
    unfolding HEADING_TOLERANCE_def by linarith
qed

text \<open>
  Claim C10. For every candidate track and every CAM, the heading difference is wrapped
  into the interval from \<open>-pi/2\<close> (included) to \<open>pi/2\<close> (excluded), which lies inside the
  tolerance interval, and so the continuity test returns exactly what the position-only
  test returns: the heading condition never rejects.
\<close>

theorem compare_position_is_position_only:
  "- (pi / 2) \<le> heading_diff self cam \<and> heading_diff self cam < pi / 2
   \<and> compare_position self cam POS_ERR_TOLERANCE HEADING_TOLERANCE = position_only_test self cam"
  using heading_always_in_constraint [of self cam]
    heading_diff_lower [of self cam] heading_diff_upper [of self cam]
  by (auto simp add: compare_position_def position_only_test_def POS_ERR_TOLERANCE_def Let_def)

lemma geo_distance_same: "geo_distance la lo la lo = 0"
  by (simp add: geo_distance_def)

lemma position_deviation_zero_motion:
  assumes "last (d_longitude self) = longitude cam"
      and "last (d_latitude self) = latitude cam"
      and "last (d_speed self) = 0" and "speed cam = 0"
  shows "position_deviation self cam = 0"
  using assms
  by (simp add: position_deviation_def dy_dx_from_distance_and_heading_def
      compute_new_long_def compute_new_lat_def geo_distance_same)

lemma compare_position_zero_motion:
  assumes "last (d_longitude self) = longitude cam"
      and "last (d_latitude self) = latitude cam"
      and "last (d_speed self) = 0" and "speed cam = 0"
  shows "compare_position self cam POS_ERR_TOLERANCE HEADING_TOLERANCE"
  using position_deviation_zero_motion [OF assms] heading_always_in_constraint [of self cam]
  by (simp add: compare_position_def POS_ERR_TOLERANCE_def)

lemma valid_dynamic_init: "valid_dynamic (VehicleDynamicId_init cam)"
  by (simp add: valid_dynamic_def VehicleDynamicId_init_def)

lemma valid_dynamic_update: "valid_dynamic self \<Longrightarrow> valid_dynamic (update_parameters self cam)"
  by (simp add: valid_dynamic_def update_parameters_def)

text \<open>
  Claim C4. For every candidate track and every CAM with the same longitude and latitude
  as the track's last position, where the track's last speed and the CAM's speed are
  zero, the continuity test returns a match, whatever the time gap between the two
  (non-negative or not) and whatever the two headings.
\<close>

theorem zero_motion_always_matches:
  assumes "valid_dynamic self"
      and "last (d_longitude self) = longitude cam"
      and "last (d_latitude self) = latitude cam"
      and "last (d_speed self) = 0" and "speed cam = 0"
  shows "compare_position self cam POS_ERR_TOLERANCE HEADING_TOLERANCE"
  by (rule compare_position_zero_motion) (use assms in simp_all)

theorem zero_motion_always_matches_witness:
  "compare_position (VehicleDynamicId_init (mk_cam 0 1 7 93200000 487430000 200 500 0 900))
     (mk_cam 5000 1 9 93200000 487430000 200 500 0 1800) POS_ERR_TOLERANCE HEADING_TOLERANCE"
  by (rule zero_motion_always_matches)
     (simp_all add: valid_dynamic_init, simp_all add: VehicleDynamicId_init_def mk_cam_def)

section \<open>The continuity test along a meridian\<close>

text \<open>
  To evaluate the test on concrete CAMs: when the track's last heading is north, the CAM
  reports the same longitude and no speed, and lies south of the track's last position,
  the deviation is the distance between the two latitudes plus the predicted
  displacement.
\<close>

lemma arcsin_abs_sin:
  assumes "\<bar>x\<bar> \<le> pi / 2"
  shows "arcsin (sqrt ((sin x)\<^sup>2)) = \<bar>x\<bar>"
proof -
  have "sqrt ((sin x)\<^sup>2) = \<bar>sin x\<bar>" by simp
  also have "\<bar>sin x\<bar> = sin \<bar>x\<bar>"
  proof (cases "0 \<le> x")
    case True
    with assms have "0 \<le> sin x" by (intro sin_ge_zero) (use pi_gt_zero in linarith)+
    with True show ?thesis by simp
  next
    case False
    then have n: "\<bar>x\<bar> = - x" by simp
    with assms False have "0 \<le> sin (- x)" by (intro sin_ge_zero) (use pi_gt_zero in linarith)+
    then show ?thesis using n by simp
  qed
  finally have "arcsin (sqrt ((sin x)\<^sup>2)) = arcsin (sin \<bar>x\<bar>)" by simp
  also have "\<dots> = \<bar>x\<bar>" using assms by (intro arcsin_sin) linarith+
  finally show ?thesis .
qed

lemma geo_distance_same_longitude:
  assumes "\<bar>deg2rad la2 - deg2rad la1\<bar> \<le> pi"
  shows "geo_distance la1 lo la2 lo = EARTH_RADIUS * \<bar>deg2rad la2 - deg2rad la1\<bar>"
proof -
  have "\<bar>(deg2rad la2 - deg2rad la1) / 2\<bar> \<le> pi / 2" using assms by simp
  from arcsin_abs_sin [OF this]
  show ?thesis by (simp add: geo_distance_def Let_def)
qed

lemma position_deviation_meridian:
  assumes lon: "last (d_longitude self) = longitude cam"
      and h0: "last (d_heading self) = 0"
      and s0: "speed cam = 0"
      and south: "latitude cam \<le> last (d_latitude self)"
      and near: "last (d_latitude self) - latitude cam \<le> 10 ^ 8"
      and fwd: "0 \<le> last (d_speed self) * (timestamp cam - last (d_timestamps self))"
      and slow: "last (d_speed self) * (timestamp cam - last (d_timestamps self)) \<le> 10 ^ 11"
  shows "position_deviation self cam =
           EARTH_RADIUS * deg2rad (real_of_int (last (d_latitude self) - latitude cam) * (10 / 10 ^ 8))
           + real_of_int (last (d_speed self) * (timestamp cam - last (d_timestamps self)))
               / (2 * 10 ^ 8)"
proof -
  define D where "D = real_of_int (last (d_latitude self) - latitude cam)"
  define W where "W = real_of_int (last (d_speed self) * (timestamp cam - last (d_timestamps self)))"
  define est where "est = real_of_int (last (d_latitude self)) * (10 / 10 ^ 8)
                      + (W / (2 * 10 ^ 8) / EARTH_RADIUS) * (180 / pi)"
  have "D \<le> real_of_int (10 ^ 8)" unfolding D_def using near by (simp only: of_int_le_iff)
  then have D: "0 \<le> D" "D \<le> 10 ^ 8" using south unfolding D_def by simp_all
  have "W \<le> real_of_int (10 ^ 11)" unfolding W_def using slow by (simp only: of_int_le_iff)
  moreover have "0 \<le> W" unfolding W_def using fwd by (simp only: of_int_0_le_iff)
  ultimately have W: "0 \<le> W" "W \<le> 10 ^ 11" by simp_all
  have pd: "position_deviation self cam =
      geo_distance (real_of_int (latitude cam) * (10 / 10 ^ 8))
                   (real_of_int (longitude cam) * (10 / 10 ^ 8)) est
                   (real_of_int (longitude cam) * (10 / 10 ^ 8))"
  proof -
    have e: "compute_new_lat (real_of_int (last (d_latitude self)) * (10 / 10 ^ 8))
               (real_of_int (last (d_speed self)) / 100
                 * (real_of_int (timestamp cam - last (d_timestamps self)) / 1000) / 2 / 1000) = est"
      by (simp add: compute_new_lat_def est_def W_def)
    show ?thesis
      using lon h0 s0 unfolding e [symmetric]
      by (simp add: position_deviation_def dy_dx_from_distance_and_heading_def
          compute_new_long_def deg2rad_def)
  qed
  have diff: "deg2rad est - deg2rad (real_of_int (latitude cam) * (10 / 10 ^ 8))
        = deg2rad (D * (10 / 10 ^ 8)) + W / (2 * 10 ^ 8) / EARTH_RADIUS"
    using pi_gt_zero by (simp add: deg2rad_def est_def D_def EARTH_RADIUS_def field_simps)
  have nn: "0 \<le> deg2rad (D * (10 / 10 ^ 8)) + W / (2 * 10 ^ 8) / EARTH_RADIUS"
    using D W pi_gt_zero by (simp add: deg2rad_def EARTH_RADIUS_def)
  have "deg2rad (D * (10 / 10 ^ 8)) \<le> 10 * (pi / 180)"
    using D pi_gt_zero by (simp add: deg2rad_def)
  moreover have "W / (2 * 10 ^ 8) / EARTH_RADIUS \<le> 1 / 10"
    using W by (simp add: EARTH_RADIUS_def)
  moreover have "10 * (pi / 180) + 1 / 10 \<le> pi" using pi_ge_two by simp
  ultimately have le: "deg2rad (D * (10 / 10 ^ 8)) + W / (2 * 10 ^ 8) / EARTH_RADIUS \<le> pi"
    by linarith
  have "position_deviation self cam
        = EARTH_RADIUS * \<bar>deg2rad (D * (10 / 10 ^ 8)) + W / (2 * 10 ^ 8) / EARTH_RADIUS\<bar>"
    unfolding pd
    using geo_distance_same_longitude [of est "real_of_int (latitude cam) * (10 / 10 ^ 8)"]
      nn le diff by simp
  also have "\<dots> = EARTH_RADIUS * (deg2rad (D * (10 / 10 ^ 8)) + W / (2 * 10 ^ 8) / EARTH_RADIUS)"
    using nn by simp
  also have "\<dots> = EARTH_RADIUS * deg2rad (D * (10 / 10 ^ 8)) + W / (2 * 10 ^ 8)"
    by (simp add: EARTH_RADIUS_def algebra_simps)
  finally show ?thesis unfolding D_def W_def .
qed

lemma not_compare_position_meridian:
  assumes lon: "last (d_longitude self) = longitude cam"
      and h0: "last (d_heading self) = 0"
      and s0: "speed cam = 0"
      and south: "latitude cam \<le> last (d_latitude self)"
      and near: "last (d_latitude self) - latitude cam \<le> 10 ^ 8"
      and fwd: "0 \<le> last (d_speed self) * (timestamp cam - last (d_timestamps self))"
      and slow: "last (d_speed self) * (timestamp cam - last (d_timestamps self)) \<le> 10 ^ 11"
      and far: "600000 \<le> last (d_speed self) * (timestamp cam - last (d_timestamps self))
                \<or> 1000 \<le> last (d_latitude self) - latitude cam"
  shows "\<not> compare_position self cam POS_ERR_TOLERANCE HEADING_TOLERANCE"
proof -
  define D where "D = real_of_int (last (d_latitude self) - latitude cam)"
  define W where "W = real_of_int (last (d_speed self) * (timestamp cam - last (d_timestamps self)))"
  have D0: "0 \<le> D" unfolding D_def using south by simp
  have W0: "0 \<le> W" unfolding W_def using fwd by (simp only: of_int_0_le_iff)
  have dev: "position_deviation self cam
               = EARTH_RADIUS * deg2rad (D * (10 / 10 ^ 8)) + W / (2 * 10 ^ 8)"
    unfolding D_def W_def by (rule position_deviation_meridian [OF lon h0 s0 south near fwd slow])
  have d0: "0 \<le> EARTH_RADIUS * deg2rad (D * (10 / 10 ^ 8))"
    using D0 by (simp add: EARTH_RADIUS_def deg2rad_def)
  have w0: "0 \<le> W / (2 * 10 ^ 8)" using W0 by simp
  from far have "3 / 1000 \<le> position_deviation self cam"
  proof
    assume "600000 \<le> last (d_speed self) * (timestamp cam - last (d_timestamps self))"
    then have "real_of_int 600000 \<le> W" unfolding W_def by (simp only: of_int_le_iff)
    then have "3 / 1000 \<le> W / (2 * 10 ^ 8)" by simp
    then show ?thesis unfolding dev using d0 by linarith
  next
    assume "1000 \<le> last (d_latitude self) - latitude cam"
    then have "real_of_int 1000 \<le> D" unfolding D_def by (simp only: of_int_le_iff)
    then have "1000 * 2 \<le> D * pi"
      using pi_ge_two by (intro mult_mono) simp_all
    then have "3 / 1000 \<le> EARTH_RADIUS * deg2rad (D * (10 / 10 ^ 8))"
      by (simp add: EARTH_RADIUS_def deg2rad_def)
    then show ?thesis unfolding dev using w0 by linarith
  qed
  then show ?thesis
    by (simp add: compare_position_def POS_ERR_TOLERANCE_def Let_def)
qed

lemmas track_eval = mk_cam_def build_routes_def VehicleConstantId_init_def
  VehicleDynamicId_init_def try_update_parameters_def compare_id_def update_parameters_def
  compare_parameters_def Let_def

section \<open>Tracking success\<close>

lemma write_success_rate_first:
  assumes "reconstructed_traces vt = first_trace # others"
      and "o_duration (original_trace vt) \<noteq> 0"
  shows "write_success_rate vt
           = Inr (real_of_int (r_duration first_trace) / real_of_int (o_duration (original_trace vt)))"
  using assms by (simp add: write_success_rate_def)

lemma build_routes_two_fragments:
  "build_routes cams_two_fragments None =
   ([\<lparr> c_static_id = 1, c_longitude = [93200000, 93200000, 93200000, 93200000, 93200000],
       c_latitude = [487430000, 487440000, 487430000, 487440000, 487430000],
       c_timestamps = [0, 1000, 2000, 3000, 4000], c_duration = 4000 \<rparr>],
    [\<lparr> d_pseudo_id = [1, 1], d_static_id = 1, d_width = 200, d_length = 500,
       d_longitude = [93200000, 93200000], d_latitude = [487430000, 487440000],
       d_speed = [0, 2000], d_heading = [0, 0], d_timestamps = [0, 1000],
       d_duration = 1000 \<rparr>,
     \<lparr> d_pseudo_id = [2, 2, 2], d_static_id = 1, d_width = 200, d_length = 500,
       d_longitude = [93200000, 93200000, 93200000],
       d_latitude = [487430000, 487440000, 487430000],
       d_speed = [0, 0, 0], d_heading = [0, 0, 0], d_timestamps = [2000, 3000, 4000],
       d_duration = 2000 \<rparr>])"
  by (simp add: cams_two_fragments_def track_eval not_compare_position_meridian)

text \<open>
  Claim C1, on the CAMs \<open>cams_two_fragments\<close>. The vehicle is evaluable: its ground-truth
  track lasts 4000 ms and two candidate tracks carry its static id, with fragment
  durations 1000 ms (pseudonym 1, created first) and 2000 ms (pseudonym 2). The function
  returns 1000 / 4000, the share of the first fragment, where the maximum of the fragment
  durations divided by the ground-truth duration is 2000 / 4000.
\<close>

theorem write_success_rate_takes_first_fragment:
  "map (\<lambda>vt. map r_duration (reconstructed_traces vt))
      (get_vehicle_traces cams_two_fragments None None) = [[1000, 2000]]
   \<and> map (\<lambda>vt. o_duration (original_trace vt))
      (get_vehicle_traces cams_two_fragments None None) = [4000]
   \<and> map write_success_rate (get_vehicle_traces cams_two_fragments None None) = [Inr (1 / 4)]
   \<and> map spec_tracking_success (get_vehicle_traces cams_two_fragments None None) = [1 / 2]"
  by (simp add: build_routes_two_fragments get_vehicle_traces_def slice_to_def
      write_success_rate_def spec_tracking_success_def d_get_positions_def c_get_positions_def
      positions_of_def get_trace_duration_def position_eq_def)

section \<open>Identity match and continuity test\<close>

lemma build_routes_two_vehicles:
  "build_routes cams_two_vehicles None =
     ([VehicleConstantId_init 1 93200000 487440000 0, VehicleConstantId_init 2 93200000 487430000 0],
      [VehicleDynamicId_init (mk_cam 0 1 1 93200000 487440000 200 500 0 0),
       VehicleDynamicId_init (mk_cam 0 2 2 93200000 487430000 200 500 0 0)])"
  by (simp add: cams_two_vehicles_def track_eval not_compare_position_meridian)

text \<open>
  Claim C2 fails as stated. After the two CAMs of \<open>cams_two_vehicles\<close> there are two
  candidate tracks, and the second one's last pseudonym is 2. The CAM
  \<open>cam_same_pseudonym\<close> carries pseudonym 2, yet the first track, of the same width and
  length, passes the continuity test before the second is looked at: the first track is
  extended (its pseudonyms become 1, 2) and the track with the matching pseudonym stays
  as it was.
\<close>

theorem identity_match_overridden:
  "snd (build_routes cams_two_vehicles None)
     = [VehicleDynamicId_init (mk_cam 0 1 1 93200000 487440000 200 500 0 0),
        VehicleDynamicId_init (mk_cam 0 2 2 93200000 487430000 200 500 0 0)]
   \<and> compare_id (VehicleDynamicId_init (mk_cam 0 2 2 93200000 487430000 200 500 0 0))
        (pseudo_id cam_same_pseudonym)
   \<and> match_dynamic_vehicle cam_same_pseudonym (snd (build_routes cams_two_vehicles None))
     = ([update_parameters (VehicleDynamicId_init (mk_cam 0 1 1 93200000 487440000 200 500 0 0))
           cam_same_pseudonym,
         VehicleDynamicId_init (mk_cam 0 2 2 93200000 487430000 200 500 0 0)], None)
   \<and> d_pseudo_id (update_parameters
         (VehicleDynamicId_init (mk_cam 0 1 1 93200000 487440000 200 500 0 0))
         cam_same_pseudonym) = [1, 2]"
proof -
  have m: "compare_position (VehicleDynamicId_init (mk_cam 0 1 1 93200000 487440000 200 500 0 0))
             cam_same_pseudonym POS_ERR_TOLERANCE HEADING_TOLERANCE"
    by (rule compare_position_zero_motion)
       (simp_all add: cam_same_pseudonym_def VehicleDynamicId_init_def mk_cam_def)
  have p: "compare_parameters (VehicleDynamicId_init (mk_cam 0 1 1 93200000 487440000 200 500 0 0))
             (length_cm cam_same_pseudonym) (width cam_same_pseudonym)"
    by (simp add: cam_same_pseudonym_def VehicleDynamicId_init_def mk_cam_def
        compare_parameters_def)
  have i: "\<not> compare_id (VehicleDynamicId_init (mk_cam 0 1 1 93200000 487440000 200 500 0 0))
             (pseudo_id cam_same_pseudonym)"
    by (simp add: cam_same_pseudonym_def VehicleDynamicId_init_def mk_cam_def compare_id_def)
  have j: "compare_id (VehicleDynamicId_init (mk_cam 0 2 2 93200000 487430000 200 500 0 0))
             (pseudo_id cam_same_pseudonym)"
    by (simp add: cam_same_pseudonym_def VehicleDynamicId_init_def mk_cam_def compare_id_def)
  have u: "d_pseudo_id (update_parameters
         (VehicleDynamicId_init (mk_cam 0 1 1 93200000 487440000 200 500 0 0))
         cam_same_pseudonym) = [1, 2]"
    by (simp add: cam_same_pseudonym_def VehicleDynamicId_init_def mk_cam_def
        update_parameters_def)
  show ?thesis
    unfolding build_routes_two_vehicles snd_conv
    using m p i j u by simp
qed

text \<open>
  Claim C2 as amended. When a candidate track's last pseudonym equals the CAM's pseudonym
  and no track before it in the list has that last pseudonym or passes the shape and
  continuity test, this track is the one extended, and the tracks after it are neither
  tested nor changed.
\<close>

theorem identity_match_extends_first_accepting:
  assumes "compare_id v (pseudo_id cam)"
      and "\<forall>u \<in> set before. \<not> compare_id u (pseudo_id cam)
             \<and> \<not> (compare_parameters u (length_cm cam) (width cam)
                    \<and> compare_position u cam POS_ERR_TOLERANCE HEADING_TOLERANCE)"
  shows "match_dynamic_vehicle cam (before @ v # after)
           = (before @ update_parameters v cam # after, None)"
  using assms by (induction before) auto

theorem identity_match_extends_first_accepting_witness:
  "match_dynamic_vehicle (mk_cam 2000 1 2 93200000 487430000 200 500 0 0)
     ([\<lparr> d_pseudo_id = [1, 1], d_static_id = 1, d_width = 200, d_length = 500,
         d_longitude = [93200000, 93200000], d_latitude = [487430000, 487440000],
         d_speed = [0, 2000], d_heading = [0, 0], d_timestamps = [0, 1000],
         d_duration = 1000 \<rparr>]
      @ VehicleDynamicId_init (mk_cam 1500 1 2 93200000 487430000 200 500 0 0)
      # [VehicleDynamicId_init (mk_cam 1700 3 2 93200000 487430000 200 500 0 0)])
   = ([\<lparr> d_pseudo_id = [1, 1], d_static_id = 1, d_width = 200, d_length = 500,
         d_longitude = [93200000, 93200000], d_latitude = [487430000, 487440000],
         d_speed = [0, 2000], d_heading = [0, 0], d_timestamps = [0, 1000],
         d_duration = 1000 \<rparr>]
      @ update_parameters (VehicleDynamicId_init (mk_cam 1500 1 2 93200000 487430000 200 500 0 0))
          (mk_cam 2000 1 2 93200000 487430000 200 500 0 0)
      # [VehicleDynamicId_init (mk_cam 1700 3 2 93200000 487430000 200 500 0 0)], None)"
proof (rule identity_match_extends_first_accepting)
  show "compare_id (VehicleDynamicId_init (mk_cam 1500 1 2 93200000 487430000 200 500 0 0))
          (pseudo_id (mk_cam 2000 1 2 93200000 487430000 200 500 0 0))"
    by (simp add: compare_id_def VehicleDynamicId_init_def mk_cam_def)
  have "\<not> compare_position \<lparr> d_pseudo_id = [1, 1], d_static_id = 1, d_width = 200, d_length = 500,
         d_longitude = [93200000, 93200000], d_latitude = [487430000, 487440000],
         d_speed = [0, 2000], d_heading = [0, 0], d_timestamps = [0, 1000],
         d_duration = 1000 \<rparr> (mk_cam 2000 1 2 93200000 487430000 200 500 0 0)
         POS_ERR_TOLERANCE HEADING_TOLERANCE"
    by (rule not_compare_position_meridian) (simp_all add: mk_cam_def)
  then show "\<forall>u \<in> set [\<lparr> d_pseudo_id = [1, 1], d_static_id = 1, d_width = 200, d_length = 500,
         d_longitude = [93200000, 93200000], d_latitude = [487430000, 487440000],
         d_speed = [0, 2000], d_heading = [0, 0], d_timestamps = [0, 1000],
         d_duration = 1000 \<rparr>].
       \<not> compare_id u (pseudo_id (mk_cam 2000 1 2 93200000 487430000 200 500 0 0))
       \<and> \<not> (compare_parameters u (length_cm (mk_cam 2000 1 2 93200000 487430000 200 500 0 0))
                (width (mk_cam 2000 1 2 93200000 487430000 200 500 0 0))
             \<and> compare_position u (mk_cam 2000 1 2 93200000 487430000 200 500 0 0)
                 POS_ERR_TOLERANCE HEADING_TOLERANCE)"
    by (simp add: compare_id_def mk_cam_def)
qed

section \<open>The duration of a reconstructed fragment\<close>

lemma trace_duration_loop_closed:
  "trace_duration_loop orig traced idxs d =
     d + sum_list (map (timestamp_delta orig)
           (takeWhile (\<lambda>i. position_eq (traced ! i) (orig ! i)) idxs))"
  by (induction idxs arbitrary: d) (simp_all add: timestamp_delta_def)

lemma get_trace_duration_closed:
  "get_trace_duration orig traced =
     sum_list (map (timestamp_delta orig)
       (takeWhile (\<lambda>i. position_eq (traced ! i) (orig ! i))
          [1 ..< min (length traced) (length orig)]))"
  by (simp add: get_trace_duration_def trace_duration_loop_closed)

lemma walk_from:
  assumes "1 \<le> k" and "k \<le> min (length traced) (length orig)"
  shows "sum_list (map (timestamp_delta orig)
           (takeWhile (\<lambda>i. position_eq (traced ! i) (orig ! i))
              [k ..< min (length traced) (length orig)]))
         = fragment_walk (zip (drop k orig) (drop k traced)) (p_timestamp (orig ! (k - 1)))"
  using assms
proof (induction "min (length traced) (length orig) - k" arbitrary: k)
  case 0
  then have "k = min (length traced) (length orig)" by simp
  then have "drop k orig = [] \<or> drop k traced = []" by (auto simp: min_def)
  then show ?case using 0 by auto
next
  case (Suc m)
  have lt: "k < min (length traced) (length orig)" using Suc.hyps(2) by linarith
  have ko: "k < length orig" and kt: "k < length traced" using lt by simp_all
  have u: "[k ..< min (length traced) (length orig)]
             = k # [Suc k ..< min (length traced) (length orig)]"
    using lt by (simp add: upt_conv_Cons)
  have d: "drop k orig = orig ! k # drop (Suc k) orig"
    "drop k traced = traced ! k # drop (Suc k) traced"
    using ko kt by (simp_all add: Cons_nth_drop_Suc)
  have ih: "sum_list (map (timestamp_delta orig)
           (takeWhile (\<lambda>i. position_eq (traced ! i) (orig ! i))
              [Suc k ..< min (length traced) (length orig)]))
         = fragment_walk (zip (drop (Suc k) orig) (drop (Suc k) traced))
             (p_timestamp (orig ! (Suc k - 1)))"
  proof (rule Suc.hyps(1))
    show "m = min (length traced) (length orig) - Suc k" using Suc.hyps(2) by linarith
    show "1 \<le> Suc k" by simp
    show "Suc k \<le> min (length traced) (length orig)" using lt by linarith
  qed
  show ?case
    unfolding u d using ih by (simp add: timestamp_delta_def)
qed

lemma get_trace_duration_spec:
  assumes "orig \<noteq> []" and "traced \<noteq> []"
      and "position_eq (traced ! 0) (orig ! 0)"
  shows "get_trace_duration orig traced = spec_fragment_duration orig traced"
proof -
  obtain a as where o: "orig = a # as" using assms(1) by (cases orig) auto
  obtain b bs where t: "traced = b # bs" using assms(2) by (cases traced) auto
  have "1 \<le> min (length traced) (length orig)" using o t by simp
  from walk_from [OF _ this] have
    "get_trace_duration orig traced
       = fragment_walk (zip (drop 1 orig) (drop 1 traced)) (p_timestamp (orig ! 0))"
    by (simp add: get_trace_duration_closed)
  then show ?thesis using assms(3) by (simp add: o t spec_fragment_duration_def)
qed

text \<open>
  Claim C3 fails as stated. The two sequences below differ at index 0 and agree at index
  1. A walk from the start that stops at the first index where the positions differ
  accumulates nothing; the function never compares index 0 and returns the delta of 100
  between the first two ground-truth timestamps.
\<close>

theorem fragment_duration_ignores_first_position:
  "get_trace_duration [posn 93200000 487430000 0, posn 93200000 487440000 100]
                      [posn 93250000 487450000 0, posn 93200000 487440000 100] = 100
   \<and> spec_fragment_duration [posn 93200000 487430000 0, posn 93200000 487440000 100]
                      [posn 93250000 487450000 0, posn 93200000 487440000 100] = 0"
  by (simp add: get_trace_duration_def spec_fragment_duration_def posn_def position_eq_def)

text \<open>
  Claim C3 as amended. For every pair of ground-truth and candidate position sequences,
  the duration is the sum of the ground-truth timestamp deltas that end at the indices
  1, 2, ... before the first index from 1 on at which the two positions differ (or the
  end of the shorter sequence); positions are compared by longitude and latitude only,
  and the positions at index 0 are not compared. When the two sequences are not empty
  and their first positions are equal, this is the walk from the start.
\<close>

theorem fragment_duration_from_index_one:
  "get_trace_duration orig traced =
     sum_list (map (timestamp_delta orig)
       (takeWhile (\<lambda>i. position_eq (traced ! i) (orig ! i))
          [1 ..< min (length traced) (length orig)]))
   \<and> (orig \<noteq> [] \<and> traced \<noteq> [] \<and> position_eq (traced ! 0) (orig ! 0)
        \<longrightarrow> get_trace_duration orig traced = spec_fragment_duration orig traced)"
  using get_trace_duration_closed [of orig traced] get_trace_duration_spec [of orig traced]
  by blast

theorem fragment_duration_from_index_one_witness:
  "get_trace_duration
      [posn 93200000 487430000 0, posn 93200000 487440000 100, posn 93200000 487450000 250]
      [posn 93200000 487430000 20, posn 93200000 487440000 120, posn 93210000 487450000 270]
    = spec_fragment_duration
      [posn 93200000 487430000 0, posn 93200000 487440000 100, posn 93200000 487450000 250]
      [posn 93200000 487430000 20, posn 93200000 487440000 120, posn 93210000 487450000 270]
   \<and> spec_fragment_duration
      [posn 93200000 487430000 0, posn 93200000 487440000 100, posn 93200000 487450000 250]
      [posn 93200000 487430000 20, posn 93200000 487440000 120, posn 93210000 487450000 270]
    = 100"
proof -
  have h: "[posn 93200000 487430000 0, posn 93200000 487440000 100, posn 93200000 487450000 250] \<noteq> []
     \<and> [posn 93200000 487430000 20, posn 93200000 487440000 120, posn 93210000 487450000 270] \<noteq> []
     \<and> position_eq
         ([posn 93200000 487430000 20, posn 93200000 487440000 120, posn 93210000 487450000 270] ! 0)
         ([posn 93200000 487430000 0, posn 93200000 487440000 100, posn 93200000 487450000 250] ! 0)"
    by (simp add: posn_def position_eq_def)
  have "get_trace_duration
      [posn 93200000 487430000 0, posn 93200000 487440000 100, posn 93200000 487450000 250]
      [posn 93200000 487430000 20, posn 93200000 487440000 120, posn 93210000 487450000 270]
    = spec_fragment_duration
      [posn 93200000 487430000 0, posn 93200000 487440000 100, posn 93200000 487450000 250]
      [posn 93200000 487430000 20, posn 93200000 487440000 120, posn 93210000 487450000 270]"
    using fragment_duration_from_index_one
      [of "[posn 93200000 487430000 0, posn 93200000 487440000 100, posn 93200000 487450000 250]"
          "[posn 93200000 487430000 20, posn 93200000 487440000 120, posn 93210000 487450000 270]"]
      h by blast
  moreover have "spec_fragment_duration
      [posn 93200000 487430000 0, posn 93200000 487440000 100, posn 93200000 487450000 250]
      [posn 93200000 487430000 20, posn 93200000 487440000 120, posn 93210000 487450000 270]
    = 100"
    by (simp add: spec_fragment_duration_def posn_def position_eq_def)
  ultimately show ?thesis by blast
qed

section \<open>The cumulative duration of a track\<close>

lemma sum_deltas_telescope: "sum_deltas (t # ts) = last (t # ts) - t"
  by (induction ts arbitrary: t) simp_all

lemma static_appends_state:
  assumes "c_timestamps v \<noteq> []"
  shows "c_timestamps (static_appends v obs) = c_timestamps v @ map (\<lambda>(lo, la, t). t) obs
       \<and> c_duration (static_appends v obs)
           = c_duration v + sum_deltas (last (c_timestamps v) # map (\<lambda>(lo, la, t). t) obs)"
  using assms
proof (induction obs arbitrary: v)
  case Nil
  show ?case by (simp add: static_appends_def)
next
  case (Cons ob obs)
  obtain lo la t where ob: "ob = (lo, la, t)" by (cases ob) auto
  define v' where "v' = fst (try_update_parameters v (c_static_id v) lo la t)"
  have v': "c_timestamps v' = c_timestamps v @ [t]"
    "c_duration v' = c_duration v + (t - last (c_timestamps v))"
    by (simp_all add: v'_def try_update_parameters_def)
  have step: "static_appends v (ob # obs) = static_appends v' obs"
    by (simp add: static_appends_def ob v'_def)
  from Cons.IH [of v'] v' show ?case
    unfolding step by (cases obs) (simp_all add: ob)
qed

lemma dynamic_appends_state:
  assumes "d_timestamps v \<noteq> []"
  shows "d_timestamps (dynamic_appends v cams) = d_timestamps v @ map timestamp cams
       \<and> d_duration (dynamic_appends v cams)
           = d_duration v + sum_deltas (last (d_timestamps v) # map timestamp cams)"
  using assms
proof (induction cams arbitrary: v)
  case Nil
  show ?case by (simp add: dynamic_appends_def)
next
  case (Cons cam cams)
  have v': "d_timestamps (update_parameters v cam) = d_timestamps v @ [timestamp cam]"
    "d_duration (update_parameters v cam) = d_duration v + (timestamp cam - last (d_timestamps v))"
    by (simp_all add: update_parameters_def)
  have step: "dynamic_appends v (cam # cams) = dynamic_appends (update_parameters v cam) cams"
    by (simp add: dynamic_appends_def)
  from Cons.IH [of "update_parameters v cam"] v' show ?case
    unfolding step by (cases cams) simp_all
qed

lemma static_duration_sum_and_span:
  "c_duration (static_appends (VehicleConstantId_init sid lo la t0) obs)
      = sum_deltas (c_timestamps (static_appends (VehicleConstantId_init sid lo la t0) obs))
   \<and> c_duration (static_appends (VehicleConstantId_init sid lo la t0) obs)
      = last (c_timestamps (static_appends (VehicleConstantId_init sid lo la t0) obs))
        - hd (c_timestamps (static_appends (VehicleConstantId_init sid lo la t0) obs))"
  using static_appends_state [of "VehicleConstantId_init sid lo la t0" obs]
    sum_deltas_telescope [of t0 "map (\<lambda>(lo, la, t). t) obs"]
  by (simp add: VehicleConstantId_init_def)

lemma dynamic_duration_sum_and_span:
  "d_duration (dynamic_appends (VehicleDynamicId_init cam) cams)
      = sum_deltas (d_timestamps (dynamic_appends (VehicleDynamicId_init cam) cams))
   \<and> d_duration (dynamic_appends (VehicleDynamicId_init cam) cams)
      = last (d_timestamps (dynamic_appends (VehicleDynamicId_init cam) cams))
        - hd (d_timestamps (dynamic_appends (VehicleDynamicId_init cam) cams))"
  using dynamic_appends_state [of "VehicleDynamicId_init cam" cams]
    sum_deltas_telescope [of "timestamp cam" "map timestamp cams"]
  by (simp add: VehicleDynamicId_init_def)

text \<open>
  Claim C8 fails as stated: the sum of the signed deltas is never anything but the last
  timestamp minus the first, for no sequence of appends to a ground-truth track or to a
  candidate track. With the timestamps 0, 100, 50, 50 (out of order and repeated) the
  duration is 50, the last timestamp minus the first, while the span between the
  smallest and the largest timestamp is 100.
\<close>

theorem duration_never_differs_from_last_minus_first:
  "\<not> (\<exists>sid lo la t0 obs.
         c_duration (static_appends (VehicleConstantId_init sid lo la t0) obs)
         \<noteq> last (c_timestamps (static_appends (VehicleConstantId_init sid lo la t0) obs))
           - hd (c_timestamps (static_appends (VehicleConstantId_init sid lo la t0) obs)))
   \<and> \<not> (\<exists>cam cams.
         d_duration (dynamic_appends (VehicleDynamicId_init cam) cams)
         \<noteq> last (d_timestamps (dynamic_appends (VehicleDynamicId_init cam) cams))
           - hd (d_timestamps (dynamic_appends (VehicleDynamicId_init cam) cams)))
   \<and> c_timestamps (static_appends (VehicleConstantId_init 1 93200000 487430000 0)
        [(93200000, 487430000, 100), (93200000, 487430000, 50), (93200000, 487430000, 50)])
      = [0, 100, 50, 50]
   \<and> c_duration (static_appends (VehicleConstantId_init 1 93200000 487430000 0)
        [(93200000, 487430000, 100), (93200000, 487430000, 50), (93200000, 487430000, 50)])
      = 50
   \<and> Max (set [0, 100, 50, 50 :: int]) - Min (set [0, 100, 50, 50 :: int]) = 100"
proof -
  have "c_timestamps (static_appends (VehicleConstantId_init 1 93200000 487430000 0)
        [(93200000, 487430000, 100), (93200000, 487430000, 50), (93200000, 487430000, 50)])
      = [0, 100, 50, 50]
   \<and> c_duration (static_appends (VehicleConstantId_init 1 93200000 487430000 0)
        [(93200000, 487430000, 100), (93200000, 487430000, 50), (93200000, 487430000, 50)])
      = 50"
    by (simp add: static_appends_def VehicleConstantId_init_def try_update_parameters_def)
  moreover have "Max (set [0, 100, 50, 50 :: int]) - Min (set [0, 100, 50, 50 :: int]) = 100"
    by simp
  ultimately show ?thesis
    using static_duration_sum_and_span dynamic_duration_sum_and_span by blast
qed

text \<open>
  Claim C8 as amended. After the constructor with timestamp \<open>t0\<close> and the appends of
  any sequence of observations, a ground-truth track holds exactly the timestamps \<open>t0\<close>
  and then those of the appended observations, in the order of the appends, and its
  cumulative duration equals the sum over these consecutive timestamps of (new timestamp
  - previous timestamp); this sum equals the last timestamp minus the first one, also
  under out-of-order or repeated timestamps. Likewise for a candidate track, created
  from one CAM and extended by any sequence of CAMs.
\<close>

theorem duration_is_sum_of_deltas:
  "c_timestamps (static_appends (VehicleConstantId_init sid lo la t0) obs)
      = t0 # map (\<lambda>(long, lat, stamp). stamp) obs
   \<and> c_duration (static_appends (VehicleConstantId_init sid lo la t0) obs)
      = sum_deltas (t0 # map (\<lambda>(long, lat, stamp). stamp) obs)
   \<and> c_duration (static_appends (VehicleConstantId_init sid lo la t0) obs)
      = last (t0 # map (\<lambda>(long, lat, stamp). stamp) obs) - t0
   \<and> d_timestamps (dynamic_appends (VehicleDynamicId_init cam) cams)
      = timestamp cam # map timestamp cams
   \<and> d_duration (dynamic_appends (VehicleDynamicId_init cam) cams)
      = sum_deltas (timestamp cam # map timestamp cams)
   \<and> d_duration (dynamic_appends (VehicleDynamicId_init cam) cams)
      = last (timestamp cam # map timestamp cams) - timestamp cam"
proof -
  have s: "c_timestamps (static_appends (VehicleConstantId_init sid lo la t0) obs)
             = t0 # map (\<lambda>(long, lat, stamp). stamp) obs
         \<and> c_duration (static_appends (VehicleConstantId_init sid lo la t0) obs)
             = sum_deltas (t0 # map (\<lambda>(long, lat, stamp). stamp) obs)"
    using static_appends_state [of "VehicleConstantId_init sid lo la t0" obs]
    by (simp add: VehicleConstantId_init_def)
  have d: "d_timestamps (dynamic_appends (VehicleDynamicId_init cam) cams)
             = timestamp cam # map timestamp cams
         \<and> d_duration (dynamic_appends (VehicleDynamicId_init cam) cams)
             = sum_deltas (timestamp cam # map timestamp cams)"
    using dynamic_appends_state [of "VehicleDynamicId_init cam" cams]
    by (simp add: VehicleDynamicId_init_def)
  have ts: "sum_deltas (t0 # map (\<lambda>(long, lat, stamp). stamp) obs)
              = last (t0 # map (\<lambda>(long, lat, stamp). stamp) obs) - t0"
    by (rule sum_deltas_telescope)
  have td: "sum_deltas (timestamp cam # map timestamp cams)
              = last (timestamp cam # map timestamp cams) - timestamp cam"
    by (rule sum_deltas_telescope)
  show ?thesis using s d ts td by simp
qed

section \<open>The anonymity set\<close>

text \<open>
  Claim C6. For a stream of exactly two CAMs, the first with timestamp 0, the second with
  another pseudonym and timestamp 2000, and the purge threshold 1000 ms: the final
  anonymity set holds the second pseudonym only (with one CAM, last seen at 2000), the
  effective anonymity set size computed from it is 0, and the degree of anonymity is the
  sentinel -1.
\<close>

theorem scenario_purge_leaves_one_pseudonym:
  assumes "timestamp c1 = 0" and "timestamp c2 = 2000" and "pseudo_id c1 \<noteq> pseudo_id c2"
  shows "calculate_anonymity_set [c1, c2] 1000 0 = [(pseudo_id c2, (1, 2000))]
       \<and> calculate_entropy_and_eass (calculate_anonymity_set [c1, c2] 1000 0) = Inr 0
       \<and> calculate_degree_of_anonymity (calculate_anonymity_set [c1, c2] 1000 0) 0 = - 1"
proof -
  have s: "calculate_anonymity_set [c1, c2] 1000 0 = [(pseudo_id c2, (1, 2000))]"
    using assms by (simp add: calculate_anonymity_set_def Let_def)
  show ?thesis
    unfolding s
    by (simp add: calculate_entropy_and_eass_def calculate_degree_of_anonymity_def)
qed

theorem scenario_purge_leaves_one_pseudonym_witness:
  "calculate_anonymity_set [mk_cam 0 1 7 93200000 487430000 200 500 0 0,
       mk_cam 2000 2 9 93300000 487530000 200 500 0 0] 1000 0 = [(9, (1, 2000))]
   \<and> calculate_entropy_and_eass
        (calculate_anonymity_set [mk_cam 0 1 7 93200000 487430000 200 500 0 0,
           mk_cam 2000 2 9 93300000 487530000 200 500 0 0] 1000 0) = Inr 0
   \<and> calculate_degree_of_anonymity
        (calculate_anonymity_set [mk_cam 0 1 7 93200000 487430000 200 500 0 0,
           mk_cam 2000 2 9 93300000 487530000 200 500 0 0] 1000 0) 0 = - 1"
proof -
  have r: "calculate_anonymity_set [mk_cam 0 1 7 93200000 487430000 200 500 0 0,
       mk_cam 2000 2 9 93300000 487530000 200 500 0 0] 1000 0
         = [(pseudo_id (mk_cam 2000 2 9 93300000 487530000 200 500 0 0), (1, 2000))]
   \<and> calculate_entropy_and_eass
        (calculate_anonymity_set [mk_cam 0 1 7 93200000 487430000 200 500 0 0,
           mk_cam 2000 2 9 93300000 487530000 200 500 0 0] 1000 0) = Inr 0
   \<and> calculate_degree_of_anonymity
        (calculate_anonymity_set [mk_cam 0 1 7 93200000 487430000 200 500 0 0,
           mk_cam 2000 2 9 93300000 487530000 200 500 0 0] 1000 0) 0 = - 1"
    by (rule scenario_purge_leaves_one_pseudonym) (simp_all add: mk_cam_def)
  have p: "pseudo_id (mk_cam 2000 2 9 93300000 487530000 200 500 0 0) = 9"
    by (simp add: mk_cam_def)
  show ?thesis using r unfolding p .
qed

section \<open>Entropy in exact arithmetic\<close>

text \<open>
  With real numbers in place of binary64 values, the effective anonymity set size of a
  non-empty set with positive counts lies between 0 and the binary logarithm of the
  number of pseudonyms, and the degree of anonymity of a set with more than one
  pseudonym lies between 0 and 1. The upper bounds are attained by a uniform set, so
  they say nothing about the rounded results the Python functions return there.
\<close>

lemma p_ln_p_lower:
  assumes "0 < p" and "0 < n"
  shows "- (p * ln n) - 1 / n + p \<le> p * ln (p::real)"
proof -
  have "0 < 1 / (n * p)" using assms by simp
  from ln_le_minus_one [OF this] have "ln (1 / (n * p)) \<le> 1 / (n * p) - 1" .
  moreover have "ln (1 / (n * p)) = - ln n - ln p"
    using assms by (simp add: ln_div ln_mult)
  ultimately have "- ln n - ln p \<le> 1 / (n * p) - 1" by simp
  then have "p * (- ln n - ln p) \<le> p * (1 / (n * p) - 1)"
    using assms(1) by (intro mult_left_mono) simp_all
  moreover have "p * (1 / (n * p) - 1) = 1 / n - p"
    using assms by (simp add: field_simps)
  ultimately show ?thesis by (simp add: algebra_simps)
qed

lemma sum_p_ln_p_lower:
  assumes "\<forall>p \<in> set ps. 0 < p" and "0 < n"
  shows "- (sum_list ps * ln n) - real (length ps) / n + sum_list ps
           \<le> (\<Sum>p \<leftarrow> ps. p * ln (p::real))"
  using assms(1)
proof (induction ps)
  case Nil
  show ?case by simp
next
  case (Cons p ps)
  have "- (p * ln n) - 1 / n + p \<le> p * ln p"
    using Cons.prems assms(2) by (intro p_ln_p_lower) simp_all
  moreover have "- (sum_list ps * ln n) - real (length ps) / n + sum_list ps
           \<le> (\<Sum>p \<leftarrow> ps. p * ln p)"
    using Cons by simp
  ultimately show ?case by (simp add: algebra_simps add_divide_distrib)
qed

lemma sum_p_ln_p_upper:
  assumes "\<forall>p \<in> set ps. 0 < p \<and> p \<le> (1::real)"
  shows "(\<Sum>p \<leftarrow> ps. p * ln p) \<le> 0"
  using assms
proof (induction ps)
  case Nil
  show ?case by simp
next
  case (Cons p ps)
  then have "p * ln p \<le> 0" by (simp add: mult_nonneg_nonpos)
  with Cons show ?case by simp
qed

lemma sum_list_map_divide:
  "(\<Sum>x \<leftarrow> xs. f x / c) = (\<Sum>x \<leftarrow> xs. f x) / (c::real)"
  by (induction xs) (simp_all add: add_divide_distrib)

lemma eass_exact_bounds:
  assumes ne: "aset \<noteq> []"
      and pos: "\<forall>entry \<in> set aset. 0 < fst (snd entry)"
  shows "\<exists>eass. calculate_entropy_and_eass aset = Inr eass
           \<and> 0 \<le> eass \<and> eass \<le> log 2 (real (length aset))"
proof -
  define counts where "counts = map (\<lambda>(_, (n_pseudo_cams, _)). real_of_int n_pseudo_cams) aset"
  define total where "total = sum_list counts"
  define probs where "probs = map (\<lambda>c. c / total) counts"
  have cpos: "\<forall>c \<in> set counts. 0 < c"
    using pos by (auto simp: counts_def)
  have cne: "counts \<noteq> []" using ne by (simp add: counts_def)
  have tpos: "0 < total"
  proof -
    obtain c cs where c: "counts = c # cs" using cne by (cases counts) auto
    have "0 \<le> sum_list cs" using cpos c by (intro sum_list_nonneg) (simp add: less_imp_le)
    moreover have "0 < c" using cpos c by simp
    ultimately show ?thesis unfolding total_def c by simp
  qed
  have cle: "\<forall>c \<in> set counts. c \<le> total"
  proof
    fix c assume "c \<in> set counts"
    then show "c \<le> total"
      unfolding total_def using cpos by (intro member_le_sum_list) (auto simp: less_imp_le)
  qed
  have ppos: "\<forall>p \<in> set probs. 0 < p \<and> p \<le> 1"
    using cpos cle tpos by (auto simp: probs_def)
  have psum: "sum_list probs = 1"
    using tpos sum_list_map_divide [of "\<lambda>c. c" total counts]
    by (simp add: probs_def total_def)
  have plen: "length probs = length aset" by (simp add: probs_def counts_def)
  have t1: "(\<Sum>(_, (n_pseudo_cams, _)) \<leftarrow> aset. real_of_int n_pseudo_cams) = total"
    by (simp add: total_def counts_def)
  have t2: "map (\<lambda>(_, (n_pseudo_cams, _)). real_of_int n_pseudo_cams / total) aset = probs"
    by (simp add: probs_def counts_def case_prod_unfold comp_def)
  have noex: "\<not> list_ex (\<lambda>prob. prob \<le> 0) probs"
    using ppos by (auto simp: list_ex_iff)
  have val: "calculate_entropy_and_eass aset = Inr (- (\<Sum>prob \<leftarrow> probs. prob * log 2 prob))"
    using tpos noex by (simp add: calculate_entropy_and_eass_def Let_def t1 t2)
  have logsum: "(\<Sum>prob \<leftarrow> probs. prob * log 2 prob) = (\<Sum>prob \<leftarrow> probs. prob * ln prob) / ln 2"
    using sum_list_map_divide [of "\<lambda>prob. prob * ln prob" "ln 2" probs]
    by (simp add: log_def)
  have n0: "0 < real (length aset)" using ne by simp
  have lo: "- ln (real (length aset)) \<le> (\<Sum>prob \<leftarrow> probs. prob * ln prob)"
    using sum_p_ln_p_lower [of probs "real (length aset)"] ppos n0 psum plen by simp
  have up: "(\<Sum>prob \<leftarrow> probs. prob * ln prob) \<le> 0"
    using ppos by (rule sum_p_ln_p_upper)
  have l2: "0 < ln (2::real)" by simp
  have neg: "- (\<Sum>prob \<leftarrow> probs. prob * log 2 prob)
               = (- (\<Sum>prob \<leftarrow> probs. prob * ln prob)) / ln 2"
    unfolding logsum by simp
  have "0 \<le> (- (\<Sum>prob \<leftarrow> probs. prob * ln prob)) / ln 2"
    using up l2 by (intro divide_nonneg_pos) simp_all
  moreover have "(- (\<Sum>prob \<leftarrow> probs. prob * ln prob)) / ln 2
                   \<le> ln (real (length aset)) / ln 2"
    using lo l2 by (intro divide_right_mono) simp_all
  moreover have "log 2 (real (length aset)) = ln (real (length aset)) / ln 2"
    by (simp add: log_def)
  ultimately have "0 \<le> - (\<Sum>prob \<leftarrow> probs. prob * log 2 prob)
      \<and> - (\<Sum>prob \<leftarrow> probs. prob * log 2 prob) \<le> log 2 (real (length aset))"
    unfolding neg by simp
  then show ?thesis using val by blast
qed

lemma degree_exact_bounds:
  assumes many: "1 < length aset"
      and pos: "\<forall>entry \<in> set aset. 0 < fst (snd entry)"
  shows "\<exists>eass. calculate_entropy_and_eass aset = Inr eass
           \<and> 0 \<le> calculate_degree_of_anonymity aset eass
           \<and> calculate_degree_of_anonymity aset eass \<le> 1"
proof -
  have "aset \<noteq> []" using many by auto
  from eass_exact_bounds [OF this pos] obtain eass where
    e: "calculate_entropy_and_eass aset = Inr eass" "0 \<le> eass"
       "eass \<le> log 2 (real (length aset))"
    by blast
  have gt: "1 < real (length aset)" using many by simp
  have "0 < log 2 (real (length aset)) \<longleftrightarrow> 1 < real (length aset)"
    by (rule zero_less_log_cancel_iff) (use gt in linarith)+
  then have l: "0 < log 2 (real (length aset))" using gt by blast
  have "calculate_degree_of_anonymity aset eass = eass / log 2 (real (length aset))"
    using many by (simp add: calculate_degree_of_anonymity_def)
  moreover have "0 \<le> eass / log 2 (real (length aset))" using e(2) l by simp
  moreover have "eass / log 2 (real (length aset)) \<le> 1" using e(3) l by simp
  ultimately show ?thesis using e(1) by auto
qed

section \<open>Pseudonym consumption\<close>

lemma pseudonyms_loop_lookup:
  "map_of (pseudonyms_loop cams acc) sid =
     (if sid \<in> static_id ` set cams \<or> sid \<in> fst ` set acc
      then Some ((case map_of acc sid of Some ps \<Rightarrow> ps | None \<Rightarrow> {})
                 \<union> {pseudo_id c | c. c \<in> set cams \<and> static_id c = sid})
      else None)"
proof (induction cams arbitrary: acc)
  case Nil
  show ?case by (auto simp: map_of_eq_None_iff split: option.splits)
next
  case (Cons cam cams)
  show ?case
    unfolding pseudonyms_loop.simps Let_def Cons.IH
    by (auto simp: update_conv' map_of_eq_None_iff image_iff dom_update
        split: option.splits)
qed

lemma pseudonyms_loop_distinct:
  "distinct (map fst acc) \<Longrightarrow> distinct (map fst (pseudonyms_loop cams acc))"
  by (induction cams arbitrary: acc) (simp_all add: Let_def distinct_update)

lemma pseudonyms_loop_keys:
  "fst ` set (pseudonyms_loop cams acc) = static_id ` set cams \<union> fst ` set acc"
proof -
  have "dom (map_of (pseudonyms_loop cams acc)) = static_id ` set cams \<union> fst ` set acc"
    unfolding dom_def pseudonyms_loop_lookup by (auto split: if_splits)
  then show ?thesis by (simp add: dom_map_of_conv_image_fst)
qed

text \<open>
  When the simulated time is not zero, \<^verbatim>\<open>calculate_pseudonym_consumption\<close> returns one
  rate per distinct static id: the number of distinct pseudonyms of that id divided by
  the simulated time.
\<close>

lemma consumption_rates:
  assumes "sim_time \<noteq> 0"
  shows "\<exists>rates. calculate_pseudonym_consumption cams sim_time = Inr rates
           \<and> length rates = card (static_id ` set cams)
           \<and> (\<forall>sid. map_of rates sid =
                 (if sid \<in> static_id ` set cams
                  then Some (real (card {pseudo_id c | c. c \<in> set cams \<and> static_id c = sid})
                             / sim_time)
                  else None))"
proof -
  define per_id where "per_id = pseudonyms_loop cams []"
  define rates where
    "rates = map (\<lambda>(sid, pseudonyms). (sid, real (card pseudonyms) / sim_time)) per_id"
  have r: "calculate_pseudonym_consumption cams sim_time = Inr rates"
    using assms by (simp add: calculate_pseudonym_consumption_def per_id_def rates_def)
  have d: "distinct (map fst per_id)"
    unfolding per_id_def by (rule pseudonyms_loop_distinct) simp
  have k: "fst ` set per_id = static_id ` set cams"
    unfolding per_id_def by (simp add: pseudonyms_loop_keys)
  have "length rates = length (map fst per_id)" by (simp add: rates_def)
  also have "\<dots> = card (set (map fst per_id))" using distinct_card [OF d] by simp
  also have "\<dots> = card (static_id ` set cams)" using k by (simp only: set_map)
  finally have l: "length rates = card (static_id ` set cams)" .
  have m: "map_of rates sid =
             map_option (\<lambda>pseudonyms. real (card pseudonyms) / sim_time) (map_of per_id sid)"
    for sid
    unfolding rates_def by (induction per_id) auto
  have "map_of rates sid =
          (if sid \<in> static_id ` set cams
           then Some (real (card {pseudo_id c | c. c \<in> set cams \<and> static_id c = sid}) / sim_time)
           else None)" for sid
    unfolding m per_id_def pseudonyms_loop_lookup by simp
  then show ?thesis using r l by blast
qed

text \<open>With fewer than two vehicles \<^verbatim>\<open>write_stats\<close> raises.\<close>

lemma write_stats_few_vehicles_raises:
  assumes "length pseudonym_consumption < 2"
  shows "\<exists>e. write_stats pseudonym_consumption = Inl e"
proof (cases pseudonym_consumption)
  case Nil
  then show ?thesis by (simp add: write_stats_def py_min_def bind_err_def)
next
  case (Cons x xs)
  then have "xs = []" using assms by simp
  then show ?thesis
    using Cons
    by (simp add: write_stats_def py_min_def py_max_def median_def mean_def stdev_def
        bind_err_def)
qed

lemma sum_list_replicate_const:
  "\<forall>x \<in> set xs. x = r \<Longrightarrow> sum_list xs = real (length xs) * (r::real)"
  by (induction xs) (simp_all add: algebra_simps)

lemma stdev_equal_values:
  assumes "2 \<le> length xs" and "\<forall>x \<in> set xs. x = r"
  shows "stdev xs = Inr 0"
proof -
  have n: "real (length xs) \<noteq> 0" using assms(1) by auto
  have m: "sum_list xs / real (length xs) = r"
    using sum_list_replicate_const [OF assms(2)] n by simp
  have "(\<Sum>x \<leftarrow> xs. (x - r)\<^sup>2) = 0"
    using assms(2) by (induction xs) simp_all
  then show ?thesis
    using assms(1) m by (simp add: stdev_def Let_def)
qed

text \<open>
  Whenever at least two vehicles all have the same consumption rate, the standard
  deviation is zero and \<^verbatim>\<open>write_stats\<close> raises instead of writing the statistics.
\<close>

lemma write_stats_equal_rates_raises:
  assumes "2 \<le> length pseudonym_consumption"
      and "\<forall>x \<in> set (map snd pseudonym_consumption). x = r"
  shows "\<exists>e. write_stats pseudonym_consumption = Inl e"
proof -
  have sd: "stdev (map snd pseudonym_consumption) = Inr 0"
  proof (rule stdev_equal_values [where r = r])
    show "2 \<le> length (map snd pseudonym_consumption)" using assms(1) by simp
    show "\<forall>x \<in> set (map snd pseudonym_consumption). x = r" by (rule assms(2))
  qed
  show ?thesis
    unfolding write_stats_def Let_def sd
    by (auto simp: bind_err_def py_recip_def split: sum.splits)
qed

text \<open>
  Claim C9, on the CAMs \<open>cams_equal_rates\<close> and a simulated time of 10 seconds. Two
  distinct static ids are present and each used one pseudonym, so both rates are 1/10,
  the number of distinct pseudonyms divided by the simulated time. Minimum, maximum,
  median and mean are 1/10 and the standard deviation is 0; the function then divides 1
  by the standard deviation and raises ZeroDivisionError, although two vehicles are
  present.
\<close>

theorem write_stats_raises_with_two_vehicles:
  "card (set (map static_id cams_equal_rates)) = 2
   \<and> calculate_pseudonym_consumption cams_equal_rates 10 = Inr [(1, 1 / 10), (2, 1 / 10)]
   \<and> stdev [1 / 10, 1 / 10] = Inr 0
   \<and> consumption_stats_of cams_equal_rates 10 = Inl ZeroDivisionError"
proof -
  have c: "calculate_pseudonym_consumption cams_equal_rates 10 = Inr [(1, 1 / 10), (2, 1 / 10)]"
    by (simp add: cams_equal_rates_def mk_cam_def calculate_pseudonym_consumption_def)
  have n: "card (set (map static_id cams_equal_rates)) = 2"
    by (simp add: cams_equal_rates_def mk_cam_def card_insert_if)
  have s: "stdev [1 / 10, 1 / 10] = Inr 0"
    by (simp add: stdev_def)
  have w: "consumption_stats_of cams_equal_rates 10 = Inl ZeroDivisionError"
    unfolding consumption_stats_of_def c
    by (simp add: write_stats_def bind_err_def py_min_def py_max_def median_def mean_def
        stdev_def py_recip_def)
  show ?thesis using c n s w by simp
qed


end
